theory Spec2Isabelle
  imports Complex_Main
begin

unbundle bit_operations_syntax

section \<open>Pointer events (mouse\_event.py)\<close>

text \<open>
  The interaction layer of cv\_plot is embedded function by function. Python integers are
  \<open>int\<close>; a tuple \<open>(x, y)\<close> of pixel coordinates is a pair of integers. Python floats
  are HOL reals: rounding is outside this model, the range of a double is not, where the
  code can leave it (see \<open>math_pow\<close>). An Axes object (package cv\_plot.core) is referred
  to by a number, and every method the code invokes on it is recorded, in order, as a
  \<open>call\<close>; so is every invocation of the user's handler and of the windowing toolkit.
\<close>

type_synonym point = "int \<times> int"

text \<open>The event codes and flag bits are OpenCV's (module cv2, highgui).\<close>

definition EVENT_MOUSEMOVE :: int where "EVENT_MOUSEMOVE = 0"
definition EVENT_LBUTTONDOWN :: int where "EVENT_LBUTTONDOWN = 1"
definition EVENT_RBUTTONDOWN :: int where "EVENT_RBUTTONDOWN = 2"
definition EVENT_MBUTTONDOWN :: int where "EVENT_MBUTTONDOWN = 3"
definition EVENT_RBUTTONDBLCLK :: int where "EVENT_RBUTTONDBLCLK = 8"
definition EVENT_MOUSEWHEEL :: int where "EVENT_MOUSEWHEEL = 10"

definition EVENT_FLAG_LBUTTON :: int where "EVENT_FLAG_LBUTTON = 1"
definition EVENT_FLAG_RBUTTON :: int where "EVENT_FLAG_RBUTTON = 2"
definition EVENT_FLAG_MBUTTON :: int where "EVENT_FLAG_MBUTTON = 4"

text \<open>
  OpenCV packs the wheel movement of a wheel event into the high 16 bits of \<open>flags\<close>,
  as a signed number, 120 for one notch; \<open>cv::getMouseWheelDelta\<close>, which the comment in
  \<open>_handle_event\<close> quotes from the C++ original, reads it back. The low bits are the
  button and key flags.
\<close>

definition getMouseWheelDelta :: "int \<Rightarrow> int" where
  "getMouseWheelDelta fl = (fl div 65536 + 32768) mod 65536 - 32768"

text \<open>Class MouseEvent: the six fields set by the constructor.\<close>

record MouseEvent =
  ev_axes :: nat
  ev_renderSize :: "int \<times> int"
  ev_event :: int
  ev_x :: int
  ev_y :: int
  ev_flags :: int

definition outerPoint :: "MouseEvent \<Rightarrow> point" where
  "outerPoint m = (ev_x m, ev_y m)"

section \<open>The mouse adapter (mouse\_adapter.py)\<close>

datatype call =
    Axes_pan nat "int \<times> int" point
  | Axes_zoom nat "int \<times> int" point real real
  | Axes_setXLimAuto nat
  | Axes_setYLimAuto nat
  | Axes_render nat int int
  | Handler_call MouseEvent
  | Cv2_destroyWindow string
  | Cv2_namedWindow string
  | Cv2_resizeWindow string int int
  | Cv2_imshow string "int \<times> int"
  | Cv2_setMouseCallback string string

text \<open>
  Class MouseAdapter. The user's handler is a function from the event to the flag it
  returns; what else it does is its own business and shows in the trace as one
  \<open>Handler_call\<close>.
\<close>

record MouseAdapter =
  pressPosPix :: point
  lastPosPix :: point
  mouseEventHandler :: "(MouseEvent \<Rightarrow> bool) option"
  axes :: nat

definition MouseAdapter_init :: "nat \<Rightarrow> MouseAdapter" where
  "MouseAdapter_init ax =
     \<lparr>pressPosPix = (0, 0), lastPosPix = (0, 0), mouseEventHandler = None, axes = ax\<rparr>"

definition setMouseEventHandler :: "MouseAdapter \<Rightarrow> (MouseEvent \<Rightarrow> bool) \<Rightarrow> MouseAdapter" where
  "setMouseEventHandler a h = a\<lparr>mouseEventHandler := Some h\<rparr>"

text \<open>
  \<open>math.pow\<close> raises \<open>OverflowError\<close> when the power is too large for a double, that
  is from \<open>2 ^ 1024\<close> on.
\<close>

datatype py_error = OverflowError

definition math_pow :: "real \<Rightarrow> real \<Rightarrow> py_error + real" where
  "math_pow b e = (if b powr e \<ge> 2 ^ 1024 then Inl OverflowError else Inr (b powr e))"

text \<open>
  \<open>_handle_event\<close>: the result is the exception raised, or the flag \<open>update\<close>, the
  adapter after the call and the calls made on the Axes. Python's \<open>flags & bit\<close> is
  true when the conjunction is not zero, and \<open>//\<close> on integers is the floor division
  \<open>div\<close>. In the wheel branch the exponent is \<open>flags // 120\<close>, of any size, and the
  power is \<open>math_pow\<close>. In the move branch the exponent is a hundredth of a distance in
  pixels between two pointer positions, which stays far from the 102400 pixels it would
  take to leave the range of a double: there the power is \<open>powr\<close>.
\<close>

definition handle_event ::
  "MouseAdapter \<Rightarrow> MouseEvent \<Rightarrow> py_error + bool \<times> MouseAdapter \<times> call list" where
  "handle_event a m =
     (let ev = ev_event m;
          fl = ev_flags m;
          outer_point = outerPoint m;
          render_size = ev_renderSize m
      in
        if ev = EVENT_MBUTTONDOWN \<or> ev = EVENT_RBUTTONDOWN then
          Inr (True, a\<lparr>pressPosPix := outer_point, lastPosPix := outer_point\<rparr>, [])
        else if ev = EVENT_MOUSEMOVE then
          (let delta_pix = (fst outer_point - fst (lastPosPix a),
                            snd outer_point - snd (lastPosPix a))
           in
             if fl AND EVENT_FLAG_MBUTTON \<noteq> 0 then
               Inr (True, a\<lparr>lastPosPix := outer_point\<rparr>,
                    [Axes_pan (axes a) render_size delta_pix])
             else if fl AND EVENT_FLAG_RBUTTON \<noteq> 0 then
               (let scale_x = 2 powr (real_of_int (- fst delta_pix) / 100);
                    scale_y = 2 powr (real_of_int (snd delta_pix) / 100)
                in Inr (True, a\<lparr>lastPosPix := outer_point\<rparr>,
                        [Axes_zoom (axes a) render_size (pressPosPix a) scale_x scale_y]))
             else Inr (False, a, []))
        else if ev = EVENT_RBUTTONDBLCLK then
          Inr (True, a, [Axes_setXLimAuto (axes a), Axes_setYLimAuto (axes a)])
        else if ev = EVENT_MOUSEWHEEL then
          (let delta = fl div 120
           in case math_pow 1.2 (real_of_int (- delta)) of
                Inl e \<Rightarrow> Inl e
              | Inr scale \<Rightarrow>
                  Inr (True, a, [Axes_zoom (axes a) render_size outer_point scale scale]))
        else Inr (False, a, []))"

text \<open>
  \<open>mouseEvent\<close>: the built-in handler runs, then the user's handler when one is set;
  \<open>update_user\<close> stays \<open>False\<close> otherwise. An exception of the built-in handler is
  not caught: it leaves \<open>mouseEvent\<close> before the user's handler is reached.
\<close>

definition mouseEvent ::
  "MouseAdapter \<Rightarrow> MouseEvent \<Rightarrow> py_error + bool \<times> MouseAdapter \<times> call list" where
  "mouseEvent a m =
     (case handle_event a m of
        Inl e \<Rightarrow> Inl e
      | Inr (update_builtin, a1, cs) \<Rightarrow>
          (case mouseEventHandler a1 of
             None \<Rightarrow> Inr (update_builtin \<or> False, a1, cs)
           | Some h \<Rightarrow> Inr (update_builtin \<or> h m, a1, cs @ [Handler_call m])))"

text \<open>The trace entries of a dispatch that come from the user's handler.\<close>

definition handler_calls :: "MouseAdapter \<Rightarrow> MouseEvent \<Rightarrow> call list" where
  "handler_calls a m = (case mouseEventHandler a of None \<Rightarrow> [] | Some h \<Rightarrow> [Handler_call m])"

section \<open>The windowing toolkit (cv2 highgui)\<close>

text \<open>
  OpenCV's highgui is not part of the repository. It is modelled as a table of the
  windows that exist, by name: each has a serial number given at creation (so that a
  window created again under the same name can be told from the one destroyed), the
  autosize property, the size of its image area and the token of its mouse callback.
  \<open>getWindowProperty\<close> on a name with no window answers \<open>-1\<close> or raises
  \<open>cv2.error\<close>, depending on the backend (\<open>hg_throws\<close>).
\<close>

datatype cv2_error = Cv2Error

record host_window =
  hw_serial :: nat
  hw_autosize :: bool
  hw_cols :: int
  hw_rows :: int
  hw_callback :: "string option"

record highgui =
  hg_windows :: "string \<rightharpoonup> host_window"
  hg_next_serial :: nat
  hg_throws :: bool
  hg_default_size :: "int \<times> int"

definition cv2_getWindowProperty :: "highgui \<Rightarrow> string \<Rightarrow> cv2_error + real" where
  "cv2_getWindowProperty g n =
     (case hg_windows g n of
        None \<Rightarrow> if hg_throws g then Inl Cv2Error else Inr (- 1)
      | Some hw \<Rightarrow> Inr (if hw_autosize hw then 1 else 0))"

definition cv2_destroyWindow :: "highgui \<Rightarrow> string \<Rightarrow> highgui" where
  "cv2_destroyWindow g n = g\<lparr>hg_windows := (hg_windows g)(n := None)\<rparr>"

definition cv2_namedWindow :: "highgui \<Rightarrow> string \<Rightarrow> highgui" where
  "cv2_namedWindow g n =
     (case hg_windows g n of
        Some hw \<Rightarrow> g
      | None \<Rightarrow>
          g\<lparr>hg_windows := (hg_windows g)(n \<mapsto>
               \<lparr>hw_serial = hg_next_serial g, hw_autosize = False,
                hw_cols = fst (hg_default_size g), hw_rows = snd (hg_default_size g),
                hw_callback = None\<rparr>),
            hg_next_serial := Suc (hg_next_serial g)\<rparr>)"

definition cv2_resizeWindow :: "highgui \<Rightarrow> string \<Rightarrow> int \<Rightarrow> int \<Rightarrow> highgui" where
  "cv2_resizeWindow g n c r =
     (case hg_windows g n of
        None \<Rightarrow> g
      | Some hw \<Rightarrow> g\<lparr>hg_windows := (hg_windows g)(n \<mapsto> hw\<lparr>hw_cols := c, hw_rows := r\<rparr>)\<rparr>)"

text \<open>An image is kept as its shape \<open>(rows, cols)\<close>, as numpy's \<open>shape\<close> gives it.\<close>

definition cv2_imshow :: "highgui \<Rightarrow> string \<Rightarrow> int \<times> int \<Rightarrow> highgui" where
  "cv2_imshow g n m =
     (case hg_windows g n of
        None \<Rightarrow>
          g\<lparr>hg_windows := (hg_windows g)(n \<mapsto>
               \<lparr>hw_serial = hg_next_serial g, hw_autosize = True,
                hw_cols = snd m, hw_rows = fst m, hw_callback = None\<rparr>),
            hg_next_serial := Suc (hg_next_serial g)\<rparr>
      | Some hw \<Rightarrow>
          if hw_autosize hw
          then g\<lparr>hg_windows := (hg_windows g)(n \<mapsto> hw\<lparr>hw_cols := snd m, hw_rows := fst m\<rparr>)\<rparr>
          else g)"

definition cv2_setMouseCallback :: "highgui \<Rightarrow> string \<Rightarrow> string \<Rightarrow> highgui" where
  "cv2_setMouseCallback g n param =
     (case hg_windows g n of
        None \<Rightarrow> g
      | Some hw \<Rightarrow> g\<lparr>hg_windows := (hg_windows g)(n \<mapsto> hw\<lparr>hw_callback := Some param\<rparr>)\<rparr>)"

definition cv2_getWindowImageRect :: "highgui \<Rightarrow> string \<Rightarrow> int \<times> int \<times> int \<times> int" where
  "cv2_getWindowImageRect g n =
     (case hg_windows g n of
        None \<Rightarrow> (- 1, - 1, - 1, - 1)
      | Some hw \<Rightarrow> (0, 0, hw_cols hw, hw_rows hw))"

section \<open>Windows (window.py)\<close>

text \<open>
  Modelled from the spec: \<open>Axes.render\<close> of cv\_plot.core, which is not among the
  sources: "render(cols, rows) -> image", the surface rendered into an image of that
  size. Only the shape of the image is kept, and \<open>mat_size\<close> is numpy's \<open>size\<close> of an
  image of three channels.
\<close>

definition render :: "nat \<Rightarrow> int \<Rightarrow> int \<Rightarrow> int \<times> int" where
  "render ax cols rows = (rows, cols)"

definition mat_size :: "int \<times> int \<Rightarrow> int" where
  "mat_size m = fst m * snd m * 3"

text \<open>
  Class Window. Window objects are mutable and shared between the caller and the
  module's dictionary \<open>_WINDOW_MAP\<close>, so they live in a store and are referred to by
  their address. An object lives as long as something refers to it: the dictionary, or
  the caller, whose references are the set \<open>caller_refs\<close>. When the last reference goes,
  the interpreter runs \<open>__del__\<close> at once and frees the object.
\<close>

record Window =
  windowName :: string
  win_rows :: int
  win_cols :: int
  mouseAdapter :: MouseAdapter
  mat :: "int \<times> int"

record world =
  WINDOW_MAP :: "string \<rightharpoonup> nat"
  heap :: "nat \<rightharpoonup> Window"
  next_ref :: nat
  caller_refs :: "nat set"
  cv2 :: highgui
  trace :: "call list"
  time_time :: real

text \<open>The state when the module has been loaded: \<open>_WINDOW_MAP = {}\<close>, no Window yet.\<close>

definition module_loaded :: "highgui \<Rightarrow> real \<Rightarrow> world" where
  "module_loaded g t =
     \<lparr>WINDOW_MAP = Map.empty, heap = Map.empty, next_ref = 0, caller_refs = {}, cv2 = g,
      trace = [], time_time = t\<rparr>"

definition do_cv2 :: "(highgui \<Rightarrow> highgui) \<Rightarrow> call \<Rightarrow> world \<Rightarrow> world" where
  "do_cv2 f c s = s\<lparr>cv2 := f (cv2 s), trace := trace s @ [c]\<rparr>"

text \<open>\<open>valid\<close>: the query inside \<open>try\<close>, \<open>cv2.error\<close> caught and answered \<open>False\<close>.\<close>

definition Window_valid :: "world \<Rightarrow> Window \<Rightarrow> bool" where
  "Window_valid s w =
     (case cv2_getWindowProperty (cv2 s) (windowName w) of
        Inr v \<Rightarrow> v \<ge> 0
      | Inl Cv2Error \<Rightarrow> False)"

text \<open>
  \<open>__del__\<close>, the body of the finaliser: first the dictionary entry under the
  window's name, then the host window when \<open>valid()\<close>.
\<close>

definition Window_del :: "nat \<Rightarrow> world \<Rightarrow> world" where
  "Window_del r s =
     (case heap s r of
        None \<Rightarrow> s
      | Some self \<Rightarrow>
          (let s1 = (if WINDOW_MAP s (windowName self) \<noteq> None
                     then s\<lparr>WINDOW_MAP := (WINDOW_MAP s)(windowName self := None)\<rparr>
                     else s)
           in if Window_valid s1 self
              then do_cv2 (\<lambda>g. cv2_destroyWindow g (windowName self))
                     (Cv2_destroyWindow (windowName self)) s1
              else s1))"

text \<open>
  What the interpreter does with an object nothing refers to any more: \<open>__del__\<close>
  runs, and the object is gone from the store. The dictionary holds a Window under its
  own name only (the one assignment is in \<open>__init__\<close>), so the entry that \<open>__del__\<close>
  deletes is the only reference the dictionary can have held to another Window of that
  name; when the caller holds none, that Window goes too. Its own finaliser finds no
  entry to delete, and the host window of the name is destroyed once, by whichever of
  the two finalisers asks first.
\<close>

definition finalise :: "nat \<Rightarrow> world \<Rightarrow> world" where
  "finalise r s =
     (case heap s r of
        None \<Rightarrow> s
      | Some self \<Rightarrow>
          (let s1 = Window_del r s;
               h1 = (heap s1)(r := None);
               h2 = (case WINDOW_MAP s (windowName self) of
                       None \<Rightarrow> h1
                     | Some r' \<Rightarrow> if r' \<in> caller_refs s then h1 else h1(r' := None))
           in s1\<lparr>heap := h2\<rparr>))"

text \<open>
  The caller gives up its reference to a Window (\<open>del w\<close>, or the variable goes out of
  scope). The Window stays when the dictionary holds it under its name.
\<close>

definition drop_reference :: "nat \<Rightarrow> world \<Rightarrow> world" where
  "drop_reference r s =
     (let s1 = s\<lparr>caller_refs := caller_refs s - {r}\<rparr>
      in case heap s1 r of
           None \<Rightarrow> s1
         | Some self \<Rightarrow>
             if WINDOW_MAP s1 (windowName self) = Some r then s1 else finalise r s1)"

text \<open>
  \<open>__init__\<close>: the new object gets the next free address. Its fields are written into
  the store when all of them are known; nothing reads the store in between. The caller
  of the constructor refers to the new object. The assignment
  \<open>_WINDOW_MAP[windowName] = self\<close> takes the dictionary's reference away from the
  Window that was registered under the name: when the caller does not refer to that one
  either, its finaliser runs there, with the new entry already in the dictionary.
\<close>

definition Window_init :: "string \<Rightarrow> nat \<Rightarrow> int \<Rightarrow> int \<Rightarrow> world \<Rightarrow> nat \<times> world" where
  "Window_init name ax cols rows s =
     (let self = \<lparr>windowName = name, win_rows = rows, win_cols = cols,
                  mouseAdapter = MouseAdapter_init ax, mat = (0, 0)\<rparr>;
          s1 = (if Window_valid s self
                then do_cv2 (\<lambda>g. cv2_destroyWindow g name) (Cv2_destroyWindow name) s
                else s);
          s2 = do_cv2 (\<lambda>g. cv2_namedWindow g name) (Cv2_namedWindow name) s1;
          s3 = do_cv2 (\<lambda>g. cv2_resizeWindow g name cols rows) (Cv2_resizeWindow name cols rows) s2;
          m = render (axes (mouseAdapter self)) cols rows;
          s4 = s3\<lparr>trace := trace s3 @ [Axes_render (axes (mouseAdapter self)) cols rows]\<rparr>;
          s5 = do_cv2 (\<lambda>g. cv2_imshow g name m) (Cv2_imshow name m) s4;
          s6 = do_cv2 (\<lambda>g. cv2_setMouseCallback g name name) (Cv2_setMouseCallback name name) s5;
          r = next_ref s6;
          s7 = s6\<lparr>heap := (heap s6)(r \<mapsto> self\<lparr>mat := m\<rparr>),
                 next_ref := Suc r,
                 caller_refs := insert r (caller_refs s6),
                 WINDOW_MAP := (WINDOW_MAP s6)(name \<mapsto> r)\<rparr>
      in (r, case WINDOW_MAP s6 name of
               None \<Rightarrow> s7
             | Some replaced \<Rightarrow>
                 if replaced \<in> caller_refs s7 then s7 else finalise replaced s7))"

definition Window_update :: "nat \<Rightarrow> world \<Rightarrow> world" where
  "Window_update r s =
     (case heap s r of
        None \<Rightarrow> s
      | Some self \<Rightarrow>
          if \<not> Window_valid s self then s
          else
            (let rect = cv2_getWindowImageRect (cv2 s) (windowName self);
                 cols = fst (snd (snd rect));
                 rows = snd (snd (snd rect));
                 m = render (axes (mouseAdapter self)) cols rows;
                 s1 = s\<lparr>heap := (heap s)(r \<mapsto> self\<lparr>mat := m\<rparr>),
                        trace := trace s @ [Axes_render (axes (mouseAdapter self)) cols rows]\<rparr>
             in if mat_size m > 0
                then do_cv2 (\<lambda>g. cv2_imshow g (windowName self) m)
                       (Cv2_imshow (windowName self) m) s1
                else s1))"

definition Window_update_size :: "nat \<Rightarrow> world \<Rightarrow> world" where
  "Window_update_size r s =
     (case heap s r of
        None \<Rightarrow> s
      | Some self \<Rightarrow>
          if \<not> Window_valid s self then s
          else
            (let rect = cv2_getWindowImageRect (cv2 s) (windowName self);
                 cols = fst (snd (snd rect));
                 rows = snd (snd (snd rect));
                 current_size = (snd (mat self), fst (mat self))
             in if cols \<noteq> fst current_size \<or> rows \<noteq> snd current_size
                then Window_update r s
                else s))"

definition Window_setMouseEventHandler :: "nat \<Rightarrow> (MouseEvent \<Rightarrow> bool) \<Rightarrow> world \<Rightarrow> world" where
  "Window_setMouseEventHandler r h s =
     (case heap s r of
        None \<Rightarrow> s
      | Some self \<Rightarrow>
          s\<lparr>heap := (heap s)(r \<mapsto>
               self\<lparr>mouseAdapter := setMouseEventHandler (mouseAdapter self) h\<rparr>)\<rparr>)"

text \<open>
  \<open>_cvplot_mouse_callback\<close>: the window is looked up under the token \<open>param\<close>. The
  result is the world the callback leaves and the exception it raised, if any.
\<close>

definition cvplot_mouse_callback ::
  "int \<Rightarrow> int \<Rightarrow> int \<Rightarrow> int \<Rightarrow> string \<Rightarrow> world \<Rightarrow> py_error option \<times> world" where
  "cvplot_mouse_callback ev x y fl param s =
     (case WINDOW_MAP s param of
        None \<Rightarrow> (None, s)
      | Some r \<Rightarrow>
          (let s1 = Window_update_size r s
           in case heap s1 r of
                None \<Rightarrow> (None, s1)
              | Some window \<Rightarrow>
                  (let mat_size = (snd (mat window), fst (mat window));
                       mouse_event = \<lparr>ev_axes = axes (mouseAdapter window),
                                      ev_renderSize = mat_size, ev_event = ev,
                                      ev_x = x, ev_y = y, ev_flags = fl\<rparr>
                   in case mouseEvent (mouseAdapter window) mouse_event of
                        Inl e \<Rightarrow> (Some e, s1)
                      | Inr (upd, a1, cs) \<Rightarrow>
                          (let s2 = s1\<lparr>heap := (heap s1)(r \<mapsto> window\<lparr>mouseAdapter := a1\<rparr>),
                                      trace := trace s1 @ cs\<rparr>
                           in (None, if upd then Window_update r s2 else s2)))))"

text \<open>
  \<open>waitKey_static\<close>. \<open>cv2.waitKey(1)\<close> hands control to the toolkit, which may run
  callbacks and let time pass: it is the parameter \<open>poll\<close>, any function from the world
  to a key code and the world after. The loop has no bound of its own, so a run that
  never returns is the value \<open>None\<close>.
\<close>

definition all_invalid :: "nat list \<Rightarrow> world \<Rightarrow> bool" where
  "all_invalid windows s =
     list_all (\<lambda>r. case heap s r of None \<Rightarrow> True | Some window \<Rightarrow> \<not> Window_valid s window)
       windows"

partial_function (option) waitKey_loop ::
  "(world \<Rightarrow> int \<times> world) \<Rightarrow> nat list \<Rightarrow> int \<Rightarrow> real \<Rightarrow> world \<Rightarrow> (int \<times> world) option" where
  "waitKey_loop poll windows delay end_time s =
     (let key = fst (poll s); s1 = snd (poll s)
      in if key \<noteq> - 1 then Some (key, s1)
         else if delay > 0 \<and> time_time s1 \<ge> end_time then Some (- 1, s1)
         else if all_invalid windows s1 then Some (- 1, s1)
         else waitKey_loop poll windows delay end_time (fold Window_update_size windows s1))"

definition waitKey_static ::
  "(world \<Rightarrow> int \<times> world) \<Rightarrow> nat list \<Rightarrow> int \<Rightarrow> world \<Rightarrow> (int \<times> world) option" where
  "waitKey_static poll windows delay s =
     (let end_time = time_time s + real_of_int delay / 1000
      in waitKey_loop poll windows delay end_time s)"

definition Window_waitKey ::
  "(world \<Rightarrow> int \<times> world) \<Rightarrow> nat \<Rightarrow> int \<Rightarrow> world \<Rightarrow> (int \<times> world) option" where
  "Window_waitKey poll r delay s = waitKey_static poll [r] delay s"

section \<open>Showing a plot (show.py)\<close>

text \<open>
  \<open>show\<close> (here \<open>show_window\<close>, \<open>show\<close> being a word of the proof language): the
  Window is a local variable, so the caller's reference to it ends when \<open>show\<close>
  returns.
\<close>

definition show_window ::
  "(world \<Rightarrow> int \<times> world) \<Rightarrow> string \<Rightarrow> nat \<Rightarrow> int \<Rightarrow> int \<Rightarrow> world \<Rightarrow> world option" where
  "show_window poll name ax cols rows s =
     (case Window_init name ax cols rows s of
        (window, s1) \<Rightarrow>
          (case Window_waitKey poll window 0 s1 of
             None \<Rightarrow> None
           | Some (key, s2) \<Rightarrow> Some (drop_reference window s2)))"

section \<open>Scenarios\<close>

text \<open>
  The worlds of the scenario "a Window named W is constructed twice, and the caller
  keeps both": a toolkit with no window, the world after the first construction and the
  world after the second. In \<open>one_window_released\<close> the caller has given up the first
  Window before the second construction, as \<open>show\<close> does.
\<close>

definition no_windows :: highgui where
  "no_windows =
     \<lparr>hg_windows = Map.empty, hg_next_serial = 0, hg_throws = False,
      hg_default_size = (640, 480)\<rparr>"

definition one_window :: world where
  "one_window = snd (Window_init ''W'' 0 640 480 (module_loaded no_windows 0))"

definition two_windows :: world where
  "two_windows = snd (Window_init ''W'' 1 800 600 one_window)"

definition one_window_released :: world where
  "one_window_released = drop_reference 0 one_window"

text \<open>
  One notch of the wheel as OpenCV delivers it, forward (\<open>120 * 65536\<close>) and backward
  (\<open>- 120 * 65536\<close>), at the point (320, 240) of a 640 by 480 rendering.
\<close>

definition wheel_forward :: MouseEvent where
  "wheel_forward =
     \<lparr>ev_axes = 0, ev_renderSize = (640, 480), ev_event = EVENT_MOUSEWHEEL,
      ev_x = 320, ev_y = 240, ev_flags = 7864320\<rparr>"

definition wheel_backward :: MouseEvent where
  "wheel_backward =
     \<lparr>ev_axes = 0, ev_renderSize = (640, 480), ev_event = EVENT_MOUSEWHEEL,
      ev_x = 320, ev_y = 240, ev_flags = - 7864320\<rparr>"

section \<open>Properties of the mouse adapter\<close>

lemmas cv2_consts =
  EVENT_MOUSEMOVE_def EVENT_LBUTTONDOWN_def EVENT_RBUTTONDOWN_def EVENT_MBUTTONDOWN_def
  EVENT_RBUTTONDBLCLK_def EVENT_MOUSEWHEEL_def
  EVENT_FLAG_LBUTTON_def EVENT_FLAG_RBUTTON_def EVENT_FLAG_MBUTTON_def

lemma handle_event_keeps_handler:
  assumes "handle_event a m = Inr (u, a1, cs)"
  shows "mouseEventHandler a1 = mouseEventHandler a"
  using assms
  by (auto simp: handle_event_def Let_def split: if_splits sum.splits)

lemma mouseEvent_returns:
  assumes "handle_event a m = Inr (u, a1, cs)"
  shows "mouseEvent a m =
           Inr (u \<or> (case mouseEventHandler a of None \<Rightarrow> False | Some h \<Rightarrow> h m), a1,
                cs @ handler_calls a m)"
  using handle_event_keeps_handler [OF assms]
  by (simp add: mouseEvent_def assms handler_calls_def split: option.splits)

lemma mouseEvent_raises:
  assumes "handle_event a m = Inl e"
  shows "mouseEvent a m = Inl e"
  by (simp add: mouseEvent_def assms)

lemma handle_event_middle_move:
  assumes "ev_event m = EVENT_MOUSEMOVE" and "ev_flags m AND EVENT_FLAG_MBUTTON \<noteq> 0"
  shows "handle_event a m =
           Inr (True, a\<lparr>lastPosPix := outerPoint m\<rparr>,
                [Axes_pan (axes a) (ev_renderSize m)
                   (ev_x m - fst (lastPosPix a), ev_y m - snd (lastPosPix a))])"
  using assms by (simp add: handle_event_def Let_def outerPoint_def cv2_consts)

lemma handle_event_right_move:
  assumes "ev_event m = EVENT_MOUSEMOVE" and "ev_flags m AND EVENT_FLAG_MBUTTON = 0"
    and "ev_flags m AND EVENT_FLAG_RBUTTON \<noteq> 0"
  shows "handle_event a m =
           Inr (True, a\<lparr>lastPosPix := outerPoint m\<rparr>,
                [Axes_zoom (axes a) (ev_renderSize m) (pressPosPix a)
                   (2 powr (- real_of_int (ev_x m - fst (lastPosPix a)) / 100))
                   (2 powr (real_of_int (ev_y m - snd (lastPosPix a)) / 100))])"
  using assms
  by (simp add: handle_event_def Let_def outerPoint_def cv2_consts diff_divide_distrib)

lemma handle_event_idle_move:
  assumes "ev_event m = EVENT_MOUSEMOVE" and "ev_flags m AND EVENT_FLAG_MBUTTON = 0"
    and "ev_flags m AND EVENT_FLAG_RBUTTON = 0"
  shows "handle_event a m = Inr (False, a, [])"
  using assms by (simp add: handle_event_def Let_def outerPoint_def cv2_consts)

lemma handle_event_wheel:
  assumes "ev_event m = EVENT_MOUSEWHEEL"
  shows "handle_event a m =
           (case math_pow 1.2 (real_of_int (- (ev_flags m div 120))) of
              Inl e \<Rightarrow> Inl e
            | Inr scale \<Rightarrow>
                Inr (True, a, [Axes_zoom (axes a) (ev_renderSize m) (outerPoint m) scale scale]))"
  using assms by (simp add: handle_event_def Let_def cv2_consts del: of_int_minus)

text \<open>
  The power \<open>1.2 ^ 65536\<close> is beyond the range of a double: already \<open>1.2 ^ 4\<close> is more
  than 2.
\<close>

lemma power_65536_large:
  fixes x :: real
  assumes "2 \<le> x ^ 4"
  shows "2 ^ 1024 \<le> x ^ 65536"
proof -
  have e: "(4::nat) * 16384 = 65536"
    by simp
  have "(2::real) ^ 1024 \<le> 2 ^ 16384"
    by (rule power_increasing) simp_all
  also have "\<dots> \<le> (x ^ 4) ^ 16384"
    by (rule power_mono) (use assms in simp_all)
  also have "\<dots> = x ^ 65536"
    by (simp only: power_mult [symmetric] e)
  finally show ?thesis .
qed

lemma math_pow_65536: "math_pow 1.2 65536 = Inl OverflowError"
proof -
  have "(2::real) \<le> 1.2 ^ 4"
    by (simp add: power4_eq_xxxx)
  then have "(2::real) ^ 1024 \<le> 1.2 ^ 65536"
    by (rule power_65536_large)
  moreover have "(1.2::real) powr 65536 = 1.2 ^ 65536"
    by (rule powr_numeral) simp
  ultimately have "(2::real) ^ 1024 \<le> 1.2 powr 65536"
    by (simp only:)
  then show ?thesis
    unfolding math_pow_def by (simp only: if_True)
qed

lemma math_pow_minus_65536: "math_pow 1.2 (- 65536) = Inr (1.2 powr (- 65536))"
proof -
  have "(1.2::real) powr (- 65536) \<le> 1.2 powr 0"
    by (rule powr_mono) simp_all
  then have "(1.2::real) powr (- 65536) \<le> 1"
    by simp
  moreover have "(1::real) < 2 ^ 1024"
    by (rule one_less_power) simp_all
  ultimately have "\<not> (2::real) ^ 1024 \<le> 1.2 powr (- 65536)"
    by linarith
  then show ?thesis
    unfolding math_pow_def by (simp only: if_False)
qed

lemma wheel_backward_exponent:
  "real_of_int (- (ev_flags wheel_backward div 120)) = 65536"
  by (simp add: wheel_backward_def)

lemma wheel_forward_exponent:
  "real_of_int (- (ev_flags wheel_forward div 120)) = - 65536"
  by (simp add: wheel_forward_def)

lemma handle_event_wheel_backward: "handle_event a wheel_backward = Inl OverflowError"
proof -
  have "ev_event wheel_backward = EVENT_MOUSEWHEEL"
    by (simp add: wheel_backward_def)
  from handle_event_wheel [OF this, of a] show ?thesis
    by (simp only: wheel_backward_exponent math_pow_65536 sum.case)
qed

lemma handle_event_wheel_forward:
  "handle_event a wheel_forward =
     Inr (True, a, [Axes_zoom (axes a) (640, 480) (320, 240)
                      (1.2 powr (- 65536)) (1.2 powr (- 65536))])"
proof -
  have ev: "ev_event wheel_forward = EVENT_MOUSEWHEEL"
    and rs: "ev_renderSize wheel_forward = (640, 480)"
    and pt: "outerPoint wheel_forward = (320, 240)"
    by (simp_all add: wheel_forward_def outerPoint_def)
  from handle_event_wheel [OF ev, of a] show ?thesis
    by (simp only: wheel_forward_exponent math_pow_minus_65536 sum.case rs pt)
qed

text \<open>
  What \<open>mouseEvent\<close> does whenever the built-in handler returns: the user's handler, when
  one is set, runs after it, whatever flag the built-in handler returned, and the result
  is the disjunction of the two flags.
\<close>

lemma mouseEvent_runs_both_when_builtin_returns:
  assumes "handle_event a m = Inr (u, a1, cs)"
  shows "mouseEventHandler a = None \<longrightarrow> mouseEvent a m = Inr (u, a1, cs)"
    and "mouseEventHandler a = Some h \<longrightarrow>
           mouseEvent a m = Inr (u \<or> h m, a1, cs @ [Handler_call m])"
  by (simp_all add: mouseEvent_returns [OF assms] handler_calls_def)

text \<open>
  C1 at the failing input. A user's handler is set, and the event is one notch of the
  wheel backward as OpenCV delivers it. The built-in handler raises \<open>OverflowError\<close>
  (its exponent is \<open>flags // 120 = - 65536\<close> negated), and \<open>mouseEvent\<close> with it: the
  user's handler, which would have answered \<open>True\<close>, is not run and no result is
  returned.
\<close>

theorem backward_wheel_notch_skips_user_handler:
  "mouseEventHandler (setMouseEventHandler (MouseAdapter_init 0) (\<lambda>e. True))
     = Some (\<lambda>e. True)
   \<and> handle_event (setMouseEventHandler (MouseAdapter_init 0) (\<lambda>e. True)) wheel_backward
     = Inl OverflowError
   \<and> mouseEvent (setMouseEventHandler (MouseAdapter_init 0) (\<lambda>e. True)) wheel_backward
     = Inl OverflowError"
  by (simp add: handle_event_wheel_backward mouseEvent_raises)
     (simp add: setMouseEventHandler_def)

text \<open>
  C2. A move event with the right-button flag set and the middle-button flag clear zooms
  the Axes by \<open>2 powr (- dx / 100)\<close> and \<open>2 powr (dy / 100)\<close>, where \<open>(dx, dy)\<close> is
  the outer point minus \<open>lastPosPix\<close> before the event, anchored at \<open>pressPosPix\<close>;
  \<open>lastPosPix\<close> becomes the outer point and the dispatch reports \<open>True\<close>. The scenario
  of the claim (right press at (200,150), move to (150,150)) is the witness: the scales
  are \<open>2 powr (1/2)\<close> and \<open>1\<close>.
\<close>

theorem right_drag_zoom:
  assumes "ev_event m = EVENT_MOUSEMOVE"
    and "ev_flags m AND EVENT_FLAG_RBUTTON \<noteq> 0"
    and "ev_flags m AND EVENT_FLAG_MBUTTON = 0"
  shows "mouseEvent a m =
           Inr (True, a\<lparr>lastPosPix := outerPoint m\<rparr>,
                Axes_zoom (axes a) (ev_renderSize m) (pressPosPix a)
                  (2 powr (- real_of_int (fst (outerPoint m) - fst (lastPosPix a)) / 100))
                  (2 powr (real_of_int (snd (outerPoint m) - snd (lastPosPix a)) / 100))
                # handler_calls a m)"
  using assms
  by (simp add: mouseEvent_returns [OF handle_event_right_move] outerPoint_def)

theorem right_drag_zoom_scenario:
  "mouseEvent (MouseAdapter_init 0)
        \<lparr>ev_axes = 0, ev_renderSize = (640, 480), ev_event = EVENT_RBUTTONDOWN,
         ev_x = 200, ev_y = 150, ev_flags = EVENT_FLAG_RBUTTON\<rparr>
     = Inr (True,
            \<lparr>pressPosPix = (200, 150), lastPosPix = (200, 150), mouseEventHandler = None,
             axes = 0\<rparr>, [])
   \<and> ev_event \<lparr>ev_axes = 0, ev_renderSize = (640, 480), ev_event = EVENT_MOUSEMOVE,
          ev_x = 150, ev_y = 150, ev_flags = EVENT_FLAG_RBUTTON\<rparr> = EVENT_MOUSEMOVE
   \<and> ev_flags \<lparr>ev_axes = 0, ev_renderSize = (640, 480), ev_event = EVENT_MOUSEMOVE,
          ev_x = 150, ev_y = 150, ev_flags = EVENT_FLAG_RBUTTON\<rparr> AND EVENT_FLAG_RBUTTON \<noteq> 0
   \<and> ev_flags \<lparr>ev_axes = 0, ev_renderSize = (640, 480), ev_event = EVENT_MOUSEMOVE,
          ev_x = 150, ev_y = 150, ev_flags = EVENT_FLAG_RBUTTON\<rparr> AND EVENT_FLAG_MBUTTON = 0
   \<and> mouseEvent
        \<lparr>pressPosPix = (200, 150), lastPosPix = (200, 150), mouseEventHandler = None,
         axes = 0\<rparr>
        \<lparr>ev_axes = 0, ev_renderSize = (640, 480), ev_event = EVENT_MOUSEMOVE,
         ev_x = 150, ev_y = 150, ev_flags = EVENT_FLAG_RBUTTON\<rparr>
     = Inr (True,
            \<lparr>pressPosPix = (200, 150), lastPosPix = (150, 150), mouseEventHandler = None,
             axes = 0\<rparr>,
            [Axes_zoom 0 (640, 480) (200, 150) (2 powr (1 / 2)) 1])"
  using right_drag_zoom [of
      "\<lparr>ev_axes = 0, ev_renderSize = (640, 480), ev_event = EVENT_MOUSEMOVE,
        ev_x = 150, ev_y = 150, ev_flags = EVENT_FLAG_RBUTTON\<rparr>"
      "\<lparr>pressPosPix = (200, 150), lastPosPix = (200, 150), mouseEventHandler = None,
        axes = 0\<rparr>"]
  by (simp add: mouseEvent_def handler_calls_def MouseAdapter_init_def handle_event_def
        Let_def outerPoint_def cv2_consts)

text \<open>
  C3. A move event with the middle-button flag set pans the Axes by the outer point minus
  \<open>lastPosPix\<close> before the event, sets \<open>lastPosPix\<close> to the outer point and reports
  \<open>True\<close>.
\<close>

theorem middle_drag_pan:
  assumes "ev_event m = EVENT_MOUSEMOVE"
    and "ev_flags m AND EVENT_FLAG_MBUTTON \<noteq> 0"
  shows "mouseEvent a m =
           Inr (True, a\<lparr>lastPosPix := outerPoint m\<rparr>,
                Axes_pan (axes a) (ev_renderSize m)
                  (fst (outerPoint m) - fst (lastPosPix a),
                   snd (outerPoint m) - snd (lastPosPix a))
                # handler_calls a m)"
  using assms
  by (simp add: mouseEvent_returns [OF handle_event_middle_move] outerPoint_def)

theorem middle_drag_pan_witness:
  "ev_event \<lparr>ev_axes = 0, ev_renderSize = (640, 480), ev_event = EVENT_MOUSEMOVE,
          ev_x = 130, ev_y = 90, ev_flags = EVENT_FLAG_MBUTTON\<rparr> = EVENT_MOUSEMOVE
   \<and> ev_flags \<lparr>ev_axes = 0, ev_renderSize = (640, 480), ev_event = EVENT_MOUSEMOVE,
          ev_x = 130, ev_y = 90, ev_flags = EVENT_FLAG_MBUTTON\<rparr> AND EVENT_FLAG_MBUTTON \<noteq> 0
   \<and> mouseEvent
        \<lparr>pressPosPix = (100, 100), lastPosPix = (120, 95), mouseEventHandler = None,
         axes = 0\<rparr>
        \<lparr>ev_axes = 0, ev_renderSize = (640, 480), ev_event = EVENT_MOUSEMOVE,
         ev_x = 130, ev_y = 90, ev_flags = EVENT_FLAG_MBUTTON\<rparr>
     = Inr (True,
            \<lparr>pressPosPix = (100, 100), lastPosPix = (130, 90), mouseEventHandler = None,
             axes = 0\<rparr>,
            [Axes_pan 0 (640, 480) (10, - 5)])"
  using middle_drag_pan [of
      "\<lparr>ev_axes = 0, ev_renderSize = (640, 480), ev_event = EVENT_MOUSEMOVE,
        ev_x = 130, ev_y = 90, ev_flags = EVENT_FLAG_MBUTTON\<rparr>"
      "\<lparr>pressPosPix = (100, 100), lastPosPix = (120, 95), mouseEventHandler = None,
        axes = 0\<rparr>"]
  by (simp add: handler_calls_def outerPoint_def cv2_consts)

text \<open>
  C4 at the failing inputs: one notch of the wheel, as OpenCV delivers it. The notch
  count that the flags carry is \<open>getMouseWheelDelta flags div 120\<close>, that is 1 forward
  and -1 backward, so the scale the claim asks for is \<open>1.2 powr (- 1)\<close> and
  \<open>1.2 powr 1\<close>. The code takes \<open>flags // 120\<close> for the notch count, 65536 and
  -65536: forward it zooms by \<open>1.2 powr (- 65536)\<close>, which is not \<open>1.2 powr (- 1)\<close>
  (and is 0.0 in a double); backward \<open>math.pow\<close> raises \<open>OverflowError\<close> and there is
  no zoom at all.
\<close>

theorem wheel_notch_is_decoded_as_65536_notches:
  "getMouseWheelDelta (ev_flags wheel_forward) div 120 = 1
   \<and> ev_flags wheel_forward div 120 = 65536
   \<and> mouseEvent (MouseAdapter_init 0) wheel_forward
     = Inr (True, MouseAdapter_init 0,
            [Axes_zoom 0 (640, 480) (320, 240) (1.2 powr (- 65536)) (1.2 powr (- 65536))])
   \<and> (1.2::real) powr (- 65536) \<noteq> 1.2 powr (- 1)
   \<and> getMouseWheelDelta (ev_flags wheel_backward) div 120 = - 1
   \<and> ev_flags wheel_backward div 120 = - 65536
   \<and> mouseEvent (MouseAdapter_init 0) wheel_backward = Inl OverflowError"
proof -
  have "mouseEvent (MouseAdapter_init 0) wheel_forward
     = Inr (True, MouseAdapter_init 0,
            [Axes_zoom 0 (640, 480) (320, 240) (1.2 powr (- 65536)) (1.2 powr (- 65536))])"
    by (simp add: mouseEvent_returns [OF handle_event_wheel_forward] handler_calls_def)
       (simp add: MouseAdapter_init_def)
  moreover have "(1.2::real) powr (- 65536) \<noteq> 1.2 powr (- 1)"
    by (simp only: powr_inj)
  moreover have "mouseEvent (MouseAdapter_init 0) wheel_backward = Inl OverflowError"
    by (simp add: handle_event_wheel_backward mouseEvent_raises)
  ultimately show ?thesis
    by (simp add: getMouseWheelDelta_def wheel_forward_def wheel_backward_def)
qed

text \<open>
  C5, as stated, fails: a move event with neither the middle nor the right button flag
  leaves \<open>lastPosPix\<close> where it was. On a fresh adapter a move to (5,7) with no flags
  returns the adapter unchanged, with \<open>lastPosPix = (0,0)\<close>.
\<close>

theorem idle_move_keeps_lastPosPix:
  "mouseEvent (MouseAdapter_init 0)
      \<lparr>ev_axes = 0, ev_renderSize = (640, 480), ev_event = EVENT_MOUSEMOVE,
       ev_x = 5, ev_y = 7, ev_flags = 0\<rparr>
     = Inr (False, MouseAdapter_init 0, [])
   \<and> lastPosPix (MouseAdapter_init 0)
     \<noteq> outerPoint
        \<lparr>ev_axes = 0, ev_renderSize = (640, 480), ev_event = EVENT_MOUSEMOVE,
         ev_x = 5, ev_y = 7, ev_flags = 0\<rparr>"
  by (simp add: mouseEvent_def MouseAdapter_init_def handle_event_def Let_def
        outerPoint_def cv2_consts)

text \<open>
  C5, amended. After a move event \<open>lastPosPix\<close> equals the event's outer point when the
  middle-button or the right-button flag is set; when neither is set the adapter is
  unchanged and the built-in handler reports \<open>False\<close>.
\<close>

theorem move_sets_lastPosPix_only_when_dragging:
  assumes "ev_event m = EVENT_MOUSEMOVE"
  shows "(ev_flags m AND EVENT_FLAG_MBUTTON \<noteq> 0 \<or> ev_flags m AND EVENT_FLAG_RBUTTON \<noteq> 0
            \<longrightarrow> (\<exists>u cs. mouseEvent a m = Inr (u, a\<lparr>lastPosPix := outerPoint m\<rparr>, cs)))
       \<and> (ev_flags m AND EVENT_FLAG_MBUTTON = 0 \<and> ev_flags m AND EVENT_FLAG_RBUTTON = 0
            \<longrightarrow> (\<exists>u. mouseEvent a m = Inr (u, a, handler_calls a m))
                \<and> handle_event a m = Inr (False, a, []))"
proof (intro conjI impI)
  assume drag: "ev_flags m AND EVENT_FLAG_MBUTTON \<noteq> 0 \<or> ev_flags m AND EVENT_FLAG_RBUTTON \<noteq> 0"
  show "\<exists>u cs. mouseEvent a m = Inr (u, a\<lparr>lastPosPix := outerPoint m\<rparr>, cs)"
  proof (cases "ev_flags m AND EVENT_FLAG_MBUTTON = 0")
    case True
    with drag have "ev_flags m AND EVENT_FLAG_RBUTTON \<noteq> 0"
      by simp
    from mouseEvent_returns [OF handle_event_right_move [OF assms True this]]
    show ?thesis
      by blast
  next
    case False
    from mouseEvent_returns [OF handle_event_middle_move [OF assms False]]
    show ?thesis
      by blast
  qed
next
  assume idle: "ev_flags m AND EVENT_FLAG_MBUTTON = 0 \<and> ev_flags m AND EVENT_FLAG_RBUTTON = 0"
  then have h: "handle_event a m = Inr (False, a, [])"
    using assms by (simp add: handle_event_idle_move)
  then show "handle_event a m = Inr (False, a, [])" .
  from mouseEvent_returns [OF h] show "\<exists>u. mouseEvent a m = Inr (u, a, handler_calls a m)"
    by simp
qed

theorem move_sets_lastPosPix_only_when_dragging_witness:
  "ev_event \<lparr>ev_axes = 0, ev_renderSize = (640, 480), ev_event = EVENT_MOUSEMOVE,
          ev_x = 5, ev_y = 7, ev_flags = 0\<rparr> = EVENT_MOUSEMOVE
   \<and> ev_flags \<lparr>ev_axes = 0, ev_renderSize = (640, 480), ev_event = EVENT_MOUSEMOVE,
          ev_x = 5, ev_y = 7, ev_flags = 0\<rparr> AND EVENT_FLAG_MBUTTON = 0
   \<and> ev_flags \<lparr>ev_axes = 0, ev_renderSize = (640, 480), ev_event = EVENT_MOUSEMOVE,
          ev_x = 5, ev_y = 7, ev_flags = 0\<rparr> AND EVENT_FLAG_RBUTTON = 0
   \<and> handle_event (MouseAdapter_init 0)
        \<lparr>ev_axes = 0, ev_renderSize = (640, 480), ev_event = EVENT_MOUSEMOVE,
         ev_x = 5, ev_y = 7, ev_flags = 0\<rparr> = Inr (False, MouseAdapter_init 0, [])
   \<and> ev_event \<lparr>ev_axes = 0, ev_renderSize = (640, 480), ev_event = EVENT_MOUSEMOVE,
          ev_x = 5, ev_y = 7, ev_flags = EVENT_FLAG_RBUTTON\<rparr> = EVENT_MOUSEMOVE
   \<and> ev_flags \<lparr>ev_axes = 0, ev_renderSize = (640, 480), ev_event = EVENT_MOUSEMOVE,
          ev_x = 5, ev_y = 7, ev_flags = EVENT_FLAG_RBUTTON\<rparr> AND EVENT_FLAG_RBUTTON \<noteq> 0
   \<and> (\<exists>u cs. mouseEvent (MouseAdapter_init 0)
        \<lparr>ev_axes = 0, ev_renderSize = (640, 480), ev_event = EVENT_MOUSEMOVE,
         ev_x = 5, ev_y = 7, ev_flags = EVENT_FLAG_RBUTTON\<rparr>
       = Inr (u, (MouseAdapter_init 0)\<lparr>lastPosPix := (5, 7)\<rparr>, cs))"
  using move_sets_lastPosPix_only_when_dragging [of
      "\<lparr>ev_axes = 0, ev_renderSize = (640, 480), ev_event = EVENT_MOUSEMOVE,
        ev_x = 5, ev_y = 7, ev_flags = 0\<rparr>" "MouseAdapter_init 0"]
    move_sets_lastPosPix_only_when_dragging [of
      "\<lparr>ev_axes = 0, ev_renderSize = (640, 480), ev_event = EVENT_MOUSEMOVE,
        ev_x = 5, ev_y = 7, ev_flags = EVENT_FLAG_RBUTTON\<rparr>" "MouseAdapter_init 0"]
  by (simp add: outerPoint_def cv2_consts)

text \<open>
  C10. A freshly constructed adapter has \<open>pressPosPix = lastPosPix = (0,0)\<close> and no
  handler; a move event with the middle-button flag dispatched to it pans by the event's
  own outer coordinates.
\<close>

theorem fresh_adapter_pans_by_outer_point:
  "pressPosPix (MouseAdapter_init ax) = (0, 0)
   \<and> lastPosPix (MouseAdapter_init ax) = (0, 0)
   \<and> mouseEventHandler (MouseAdapter_init ax) = None
   \<and> (ev_event m = EVENT_MOUSEMOVE \<and> ev_flags m AND EVENT_FLAG_MBUTTON \<noteq> 0 \<longrightarrow>
        mouseEvent (MouseAdapter_init ax) m =
          Inr (True, (MouseAdapter_init ax)\<lparr>lastPosPix := outerPoint m\<rparr>,
               [Axes_pan ax (ev_renderSize m) (ev_x m, ev_y m)]))"
proof -
  have "mouseEvent (MouseAdapter_init ax) m =
          Inr (True, (MouseAdapter_init ax)\<lparr>lastPosPix := outerPoint m\<rparr>,
               [Axes_pan ax (ev_renderSize m) (ev_x m, ev_y m)])"
    if "ev_event m = EVENT_MOUSEMOVE" and "ev_flags m AND EVENT_FLAG_MBUTTON \<noteq> 0"
    using mouseEvent_returns [OF handle_event_middle_move [OF that], of "MouseAdapter_init ax"]
    by (simp add: handler_calls_def MouseAdapter_init_def)
  then show ?thesis
    by (simp add: MouseAdapter_init_def)
qed

theorem fresh_adapter_pans_by_outer_point_witness:
  "ev_event \<lparr>ev_axes = 3, ev_renderSize = (640, 480), ev_event = EVENT_MOUSEMOVE,
          ev_x = 40, ev_y = 25, ev_flags = EVENT_FLAG_MBUTTON\<rparr> = EVENT_MOUSEMOVE
   \<and> ev_flags \<lparr>ev_axes = 3, ev_renderSize = (640, 480), ev_event = EVENT_MOUSEMOVE,
          ev_x = 40, ev_y = 25, ev_flags = EVENT_FLAG_MBUTTON\<rparr> AND EVENT_FLAG_MBUTTON \<noteq> 0
   \<and> mouseEvent (MouseAdapter_init 3)
        \<lparr>ev_axes = 3, ev_renderSize = (640, 480), ev_event = EVENT_MOUSEMOVE,
         ev_x = 40, ev_y = 25, ev_flags = EVENT_FLAG_MBUTTON\<rparr>
     = Inr (True,
            \<lparr>pressPosPix = (0, 0), lastPosPix = (40, 25), mouseEventHandler = None,
             axes = 3\<rparr>,
            [Axes_pan 3 (640, 480) (40, 25)])"
  using fresh_adapter_pans_by_outer_point [of 3
      "\<lparr>ev_axes = 3, ev_renderSize = (640, 480), ev_event = EVENT_MOUSEMOVE,
        ev_x = 40, ev_y = 25, ev_flags = EVENT_FLAG_MBUTTON\<rparr>"]
  by (simp add: MouseAdapter_init_def outerPoint_def cv2_consts)

section \<open>Properties of the windows\<close>

lemmas cv2_defs =
  cv2_getWindowProperty_def cv2_destroyWindow_def cv2_namedWindow_def cv2_resizeWindow_def
  cv2_imshow_def cv2_setMouseCallback_def cv2_getWindowImageRect_def

lemma Window_valid_iff: "Window_valid s w \<longleftrightarrow> hg_windows (cv2 s) (windowName w) \<noteq> None"
  by (auto simp: Window_valid_def cv2_getWindowProperty_def split: option.splits)

lemma do_cv2_fields [simp]:
  "cv2 (do_cv2 f c s) = f (cv2 s)"
  "trace (do_cv2 f c s) = trace s @ [c]"
  "WINDOW_MAP (do_cv2 f c s) = WINDOW_MAP s"
  "heap (do_cv2 f c s) = heap s"
  "next_ref (do_cv2 f c s) = next_ref s"
  "caller_refs (do_cv2 f c s) = caller_refs s"
  "time_time (do_cv2 f c s) = time_time s"
  by (simp_all add: do_cv2_def)

lemma MouseAdapter_init_axes [simp]: "axes (MouseAdapter_init ax) = ax"
  by (simp add: MouseAdapter_init_def)

text \<open>The calls of the constructor on the toolkit, one after the other.\<close>

lemma host_create_chain:
  assumes "hg_windows g name = None"
  shows "hg_windows
           (cv2_setMouseCallback
              (cv2_imshow (cv2_resizeWindow (cv2_namedWindow g name) name c rw) name m)
              name name) name
         = Some \<lparr>hw_serial = hg_next_serial g, hw_autosize = False, hw_cols = c,
                 hw_rows = rw, hw_callback = Some name\<rparr>"
    and "hg_next_serial
           (cv2_setMouseCallback
              (cv2_imshow (cv2_resizeWindow (cv2_namedWindow g name) name c rw) name m)
              name name)
         = Suc (hg_next_serial g)"
    and "hg_throws
           (cv2_setMouseCallback
              (cv2_imshow (cv2_resizeWindow (cv2_namedWindow g name) name c rw) name m)
              name name)
         = hg_throws g"
  using assms by (simp_all add: cv2_defs)

lemma host_destroyed [simp]:
  "hg_windows (cv2_destroyWindow g name) name = None"
  "hg_next_serial (cv2_destroyWindow g name) = hg_next_serial g"
  "hg_throws (cv2_destroyWindow g name) = hg_throws g"
  by (simp_all add: cv2_destroyWindow_def)

text \<open>
  A construction that replaces no Window, or one the caller still holds, runs no
  finaliser.
\<close>

lemma Window_init_fst: "fst (Window_init name ax c rw s) = next_ref s"
  by (simp add: Window_init_def Let_def)

lemma Window_init_kept:
  assumes "\<forall>r0. WINDOW_MAP s name = Some r0 \<longrightarrow> r0 \<in> caller_refs s"
  shows "next_ref (snd (Window_init name ax c rw s)) = Suc (next_ref s)"
    and "WINDOW_MAP (snd (Window_init name ax c rw s)) = (WINDOW_MAP s)(name \<mapsto> next_ref s)"
    and "heap (snd (Window_init name ax c rw s)) =
           (heap s)(next_ref s \<mapsto> \<lparr>windowName = name, win_rows = rw, win_cols = c,
                                    mouseAdapter = MouseAdapter_init ax, mat = (rw, c)\<rparr>)"
    and "caller_refs (snd (Window_init name ax c rw s)) = insert (next_ref s) (caller_refs s)"
    and "time_time (snd (Window_init name ax c rw s)) = time_time s"
    and "trace (snd (Window_init name ax c rw s)) =
           trace s
           @ (if hg_windows (cv2 s) name \<noteq> None then [Cv2_destroyWindow name] else [])
           @ [Cv2_namedWindow name, Cv2_resizeWindow name c rw, Axes_render ax c rw,
              Cv2_imshow name (rw, c), Cv2_setMouseCallback name name]"
    and "cv2 (snd (Window_init name ax c rw s)) =
           cv2_setMouseCallback
             (cv2_imshow
                (cv2_resizeWindow
                   (cv2_namedWindow
                      (if hg_windows (cv2 s) name \<noteq> None
                       then cv2_destroyWindow (cv2 s) name else cv2 s) name)
                   name c rw)
                name (rw, c))
             name name"
  using assms
  by (simp_all add: Window_init_def Let_def Window_valid_iff render_def split: option.splits)

lemma Window_init_kept_host:
  assumes "\<forall>r0. WINDOW_MAP s name = Some r0 \<longrightarrow> r0 \<in> caller_refs s"
  shows "hg_windows (cv2 (snd (Window_init name ax c rw s))) name =
           Some \<lparr>hw_serial = hg_next_serial (cv2 s), hw_autosize = False, hw_cols = c,
                 hw_rows = rw, hw_callback = Some name\<rparr>"
    and "hg_next_serial (cv2 (snd (Window_init name ax c rw s))) = Suc (hg_next_serial (cv2 s))"
    and "hg_throws (cv2 (snd (Window_init name ax c rw s))) = hg_throws (cv2 s)"
proof -
  let ?g = "if hg_windows (cv2 s) name \<noteq> None
            then cv2_destroyWindow (cv2 s) name else cv2 s"
  have absent: "hg_windows ?g name = None"
    by simp
  have same: "hg_next_serial ?g = hg_next_serial (cv2 s)" "hg_throws ?g = hg_throws (cv2 s)"
    by simp_all
  show "hg_windows (cv2 (snd (Window_init name ax c rw s))) name =
           Some \<lparr>hw_serial = hg_next_serial (cv2 s), hw_autosize = False, hw_cols = c,
                 hw_rows = rw, hw_callback = Some name\<rparr>"
    by (simp only: Window_init_kept(7) [OF assms] host_create_chain(1) [OF absent] same)
  show "hg_next_serial (cv2 (snd (Window_init name ax c rw s))) = Suc (hg_next_serial (cv2 s))"
    by (simp only: Window_init_kept(7) [OF assms] host_create_chain(2) [OF absent] same)
  show "hg_throws (cv2 (snd (Window_init name ax c rw s))) = hg_throws (cv2 s)"
    by (simp only: Window_init_kept(7) [OF assms] host_create_chain(3) [OF absent] same)
qed

text \<open>The scenario worlds, field by field.\<close>

lemma module_loaded_fields [simp]:
  "WINDOW_MAP (module_loaded g t) = Map.empty"
  "heap (module_loaded g t) = Map.empty"
  "next_ref (module_loaded g t) = 0"
  "caller_refs (module_loaded g t) = {}"
  "cv2 (module_loaded g t) = g"
  "trace (module_loaded g t) = []"
  "time_time (module_loaded g t) = t"
  by (simp_all add: module_loaded_def)

lemma one_window_fields:
  "WINDOW_MAP one_window = [''W'' \<mapsto> 0]"
  "heap one_window =
     [0 \<mapsto> \<lparr>windowName = ''W'', win_rows = 480, win_cols = 640,
             mouseAdapter = MouseAdapter_init 0, mat = (480, 640)\<rparr>]"
  "next_ref one_window = 1"
  "caller_refs one_window = {0}"
  "hg_windows (cv2 one_window) ''W'' =
     Some \<lparr>hw_serial = 0, hw_autosize = False, hw_cols = 640, hw_rows = 480,
           hw_callback = Some ''W''\<rparr>"
  "hg_next_serial (cv2 one_window) = 1"
  "hg_throws (cv2 one_window) = False"
  "trace one_window =
     [Cv2_namedWindow ''W'', Cv2_resizeWindow ''W'' 640 480, Axes_render 0 640 480,
      Cv2_imshow ''W'' (480, 640), Cv2_setMouseCallback ''W'' ''W'']"
  unfolding one_window_def
  by (simp_all add: Window_init_kept(1-6) Window_init_kept_host no_windows_def)

lemma two_windows_fields:
  "WINDOW_MAP two_windows = [''W'' \<mapsto> 1]"
  "heap two_windows =
     [0 \<mapsto> \<lparr>windowName = ''W'', win_rows = 480, win_cols = 640,
             mouseAdapter = MouseAdapter_init 0, mat = (480, 640)\<rparr>,
      1 \<mapsto> \<lparr>windowName = ''W'', win_rows = 600, win_cols = 800,
             mouseAdapter = MouseAdapter_init 1, mat = (600, 800)\<rparr>]"
  "next_ref two_windows = 2"
  "caller_refs two_windows = {0, 1}"
  "hg_windows (cv2 two_windows) ''W'' =
     Some \<lparr>hw_serial = 1, hw_autosize = False, hw_cols = 800, hw_rows = 600,
           hw_callback = Some ''W''\<rparr>"
  "hg_next_serial (cv2 two_windows) = 2"
  "hg_throws (cv2 two_windows) = False"
  "trace two_windows =
     [Cv2_namedWindow ''W'', Cv2_resizeWindow ''W'' 640 480, Axes_render 0 640 480,
      Cv2_imshow ''W'' (480, 640), Cv2_setMouseCallback ''W'' ''W'',
      Cv2_destroyWindow ''W'',
      Cv2_namedWindow ''W'', Cv2_resizeWindow ''W'' 800 600, Axes_render 1 800 600,
      Cv2_imshow ''W'' (600, 800), Cv2_setMouseCallback ''W'' ''W'']"
  unfolding two_windows_def
  by (simp_all add: Window_init_kept(1-6) Window_init_kept_host one_window_fields insert_commute)

text \<open>
  The order inside \<open>__del__\<close>: the dictionary entry under the window's name is gone
  before the host window is destroyed, and afterwards the name resolves to no Window.
\<close>

lemma Window_del_unregisters_first:
  assumes "heap s r = Some self"
  shows "Window_del r s =
           (let s1 = s\<lparr>WINDOW_MAP := (WINDOW_MAP s)(windowName self := None)\<rparr>
            in if Window_valid s1 self
               then do_cv2 (\<lambda>g. cv2_destroyWindow g (windowName self))
                      (Cv2_destroyWindow (windowName self)) s1
               else s1)"
    and "WINDOW_MAP (Window_del r s) (windowName self) = None"
  using assms
  by (auto simp: Window_del_def Let_def fun_upd_idem)

lemma Window_del_fields:
  assumes "heap s r = Some self"
  shows "WINDOW_MAP (Window_del r s) = (WINDOW_MAP s)(windowName self := None)"
    and "heap (Window_del r s) = heap s"
    and "next_ref (Window_del r s) = next_ref s"
    and "caller_refs (Window_del r s) = caller_refs s"
    and "cv2 (Window_del r s) =
           (if hg_windows (cv2 s) (windowName self) \<noteq> None
            then cv2_destroyWindow (cv2 s) (windowName self) else cv2 s)"
    and "trace (Window_del r s) =
           trace s @ (if hg_windows (cv2 s) (windowName self) \<noteq> None
                      then [Cv2_destroyWindow (windowName self)] else [])"
  by (simp_all add: Window_del_unregisters_first(1) [OF assms] Let_def Window_valid_iff)




text \<open>
  The same construction when the caller has let go of the first Window, as after
  \<open>show\<close>: the dictionary held the last reference, so the assignment of the new entry
  sets off the finaliser of the first Window inside the constructor. It deletes the
  entry just written and destroys the host window just created.
\<close>

lemma Window_init_released:
  assumes "WINDOW_MAP s name = Some r0"
    and "heap s r0 = Some w0"
    and "windowName w0 = name"
    and "r0 \<notin> caller_refs s"
    and "r0 \<noteq> next_ref s"
  shows "WINDOW_MAP (snd (Window_init name ax c rw s)) name = None"
    and "hg_windows (cv2 (snd (Window_init name ax c rw s))) name = None"
    and "heap (snd (Window_init name ax c rw s)) r0 = None"
    and "heap (snd (Window_init name ax c rw s)) (next_ref s) =
           Some \<lparr>windowName = name, win_rows = rw, win_cols = c,
                 mouseAdapter = MouseAdapter_init ax, mat = (rw, c)\<rparr>"
    and "trace (snd (Window_init name ax c rw s)) =
           trace s
           @ (if hg_windows (cv2 s) name \<noteq> None then [Cv2_destroyWindow name] else [])
           @ [Cv2_namedWindow name, Cv2_resizeWindow name c rw, Axes_render ax c rw,
              Cv2_imshow name (rw, c), Cv2_setMouseCallback name name,
              Cv2_destroyWindow name]"
proof -
  have made: "hg_windows
           (cv2_setMouseCallback
              (cv2_imshow (cv2_resizeWindow (cv2_namedWindow g name) name c rw) name (rw, c))
              name name) name \<noteq> None" for g
    by (cases "hg_windows g name") (simp_all add: cv2_defs)
  show "WINDOW_MAP (snd (Window_init name ax c rw s)) name = None"
    using assms made
    by (simp add: Window_init_def Let_def Window_valid_iff render_def finalise_def
          Window_del_def)
  show "hg_windows (cv2 (snd (Window_init name ax c rw s))) name = None"
    using assms made
    by (simp add: Window_init_def Let_def Window_valid_iff render_def finalise_def
          Window_del_def)
  show "heap (snd (Window_init name ax c rw s)) r0 = None"
    using assms made
    by (simp add: Window_init_def Let_def Window_valid_iff render_def finalise_def
          Window_del_def)
  show "heap (snd (Window_init name ax c rw s)) (next_ref s) =
           Some \<lparr>windowName = name, win_rows = rw, win_cols = c,
                 mouseAdapter = MouseAdapter_init ax, mat = (rw, c)\<rparr>"
    using assms made
    by (simp add: Window_init_def Let_def Window_valid_iff render_def finalise_def
          Window_del_def)
  show "trace (snd (Window_init name ax c rw s)) =
           trace s
           @ (if hg_windows (cv2 s) name \<noteq> None then [Cv2_destroyWindow name] else [])
           @ [Cv2_namedWindow name, Cv2_resizeWindow name c rw, Axes_render ax c rw,
              Cv2_imshow name (rw, c), Cv2_setMouseCallback name name,
              Cv2_destroyWindow name]"
    using assms made
    by (simp add: Window_init_def Let_def Window_valid_iff render_def finalise_def
          Window_del_def)
qed

text \<open>
  C7 at the failing input. After two constructions under the name \<open>W\<close> the dictionary
  maps \<open>W\<close> to the second Window (address 1), which is valid. Finalising the first
  Window (address 0) deletes the entry under its name, which is the second Window's
  entry, and destroys the host window \<open>W\<close>, which is the second Window's: the second
  Window object is still in the store and has neither a dictionary entry nor a host
  window.
\<close>

theorem del_of_replaced_window_unregisters_live_window:
  "WINDOW_MAP two_windows ''W'' = Some 1
   \<and> heap two_windows 1 =
       Some \<lparr>windowName = ''W'', win_rows = 600, win_cols = 800,
             mouseAdapter = MouseAdapter_init 1, mat = (600, 800)\<rparr>
   \<and> Window_valid two_windows
       \<lparr>windowName = ''W'', win_rows = 600, win_cols = 800,
        mouseAdapter = MouseAdapter_init 1, mat = (600, 800)\<rparr>
   \<and> heap (Window_del 0 two_windows) 1 = heap two_windows 1
   \<and> WINDOW_MAP (Window_del 0 two_windows) ''W'' = None
   \<and> \<not> Window_valid (Window_del 0 two_windows)
       \<lparr>windowName = ''W'', win_rows = 600, win_cols = 800,
        mouseAdapter = MouseAdapter_init 1, mat = (600, 800)\<rparr>
   \<and> trace (Window_del 0 two_windows) = trace two_windows @ [Cv2_destroyWindow ''W'']"
proof -
  have first: "heap two_windows 0 =
     Some \<lparr>windowName = ''W'', win_rows = 480, win_cols = 640,
           mouseAdapter = MouseAdapter_init 0, mat = (480, 640)\<rparr>"
    by (simp add: two_windows_fields)
  show ?thesis
    by (simp add: Window_del_fields [OF first] Window_valid_iff two_windows_fields)
qed

text \<open>
  C8. With an empty list of windows and delay 0, when the first poll of the toolkit
  reports no key (\<open>-1\<close>), \<open>waitKey_static\<close> returns \<open>-1\<close> after that one poll: the
  result is \<open>Some\<close>, and the world is the one the first poll left.
\<close>

theorem waitKey_no_windows_returns_at_once:
  assumes "fst (poll s) = - 1"
  shows "waitKey_static poll [] 0 s = Some (- 1, snd (poll s))"
  using assms
  by (simp add: waitKey_static_def Let_def)
     (subst waitKey_loop.simps, simp add: Let_def all_invalid_def)

theorem waitKey_no_windows_returns_at_once_witness:
  "fst ((\<lambda>s. (- 1, s)) (module_loaded no_windows 0)) = - 1
   \<and> waitKey_static (\<lambda>s. (- 1, s)) [] 0 (module_loaded no_windows 0)
     = Some (- 1, module_loaded no_windows 0)"
  using waitKey_no_windows_returns_at_once [of "\<lambda>s. (- 1, s)" "module_loaded no_windows 0"]
  by simp

text \<open>
  C9. \<open>valid\<close> is a total function into \<open>bool\<close>: when the toolkit's query raises, the
  answer is \<open>False\<close>; when it returns \<open>v\<close>, the answer is \<open>0 \<le> v\<close>. For a name with
  no host window the answer is \<open>False\<close> whichever way the backend reports it.
\<close>

theorem valid_never_raises:
  "(\<forall>e. cv2_getWindowProperty (cv2 s) (windowName w) = Inl e \<longrightarrow> Window_valid s w = False)
   \<and> (\<forall>v. cv2_getWindowProperty (cv2 s) (windowName w) = Inr v \<longrightarrow>
          Window_valid s w = (0 \<le> v))
   \<and> (hg_windows (cv2 s) (windowName w) = None \<longrightarrow> Window_valid s w = False)"
  by (auto simp: Window_valid_def cv2_getWindowProperty_def
        split: sum.splits cv2_error.splits option.splits)

theorem valid_never_raises_witness:
  "cv2_getWindowProperty (cv2 (module_loaded (no_windows\<lparr>hg_throws := True\<rparr>) 0)) ''W''
     = Inl Cv2Error
   \<and> Window_valid (module_loaded (no_windows\<lparr>hg_throws := True\<rparr>) 0)
       \<lparr>windowName = ''W'', win_rows = 480, win_cols = 640,
        mouseAdapter = MouseAdapter_init 0, mat = (480, 640)\<rparr> = False
   \<and> cv2_getWindowProperty (cv2 (module_loaded no_windows 0)) ''W'' = Inr (- 1)
   \<and> Window_valid (module_loaded no_windows 0)
       \<lparr>windowName = ''W'', win_rows = 480, win_cols = 640,
        mouseAdapter = MouseAdapter_init 0, mat = (480, 640)\<rparr> = False
   \<and> cv2_getWindowProperty (cv2 one_window) ''W'' = Inr 0
   \<and> Window_valid one_window
       \<lparr>windowName = ''W'', win_rows = 480, win_cols = 640,
        mouseAdapter = MouseAdapter_init 0, mat = (480, 640)\<rparr> = True"
  using valid_never_raises [of "module_loaded (no_windows\<lparr>hg_throws := True\<rparr>) 0"
      "\<lparr>windowName = ''W'', win_rows = 480, win_cols = 640,
        mouseAdapter = MouseAdapter_init 0, mat = (480, 640)\<rparr>"]
    valid_never_raises [of "module_loaded no_windows 0"
      "\<lparr>windowName = ''W'', win_rows = 480, win_cols = 640,
        mouseAdapter = MouseAdapter_init 0, mat = (480, 640)\<rparr>"]
    valid_never_raises [of one_window
      "\<lparr>windowName = ''W'', win_rows = 480, win_cols = 640,
        mouseAdapter = MouseAdapter_init 0, mat = (480, 640)\<rparr>"]
  by (simp add: cv2_getWindowProperty_def no_windows_def one_window_fields)

section \<open>Showing twice\<close>

text \<open>
  \<open>show\<close> called twice with the same window name, as \<open>showPlot\<close> and \<open>showImage\<close> do
  with the name \<open>CvPlot\<close>. The first call ends when a key is pressed (27 here); its
  Window stays in the dictionary and nowhere else. The second call constructs its
  Window, which sets off the finaliser of the first; the new host window is destroyed
  before \<open>waitKey\<close> starts, so \<open>waitKey\<close> finds no valid window and returns at the
  first poll, and nothing is left registered or shown.
\<close>

lemma one_window_released_fields:
  "WINDOW_MAP one_window_released = [''W'' \<mapsto> 0]"
  "heap one_window_released =
     [0 \<mapsto> \<lparr>windowName = ''W'', win_rows = 480, win_cols = 640,
             mouseAdapter = MouseAdapter_init 0, mat = (480, 640)\<rparr>]"
  "next_ref one_window_released = 1"
  "caller_refs one_window_released = {}"
  "cv2 one_window_released = cv2 one_window"
  "trace one_window_released = trace one_window"
  by (simp_all add: one_window_released_def drop_reference_def Let_def one_window_fields)

lemma first_show:
  "show_window (\<lambda>s. (27, s)) ''W'' 0 640 480 (module_loaded no_windows 0)
     = Some one_window_released"
proof -
  have i: "Window_init ''W'' 0 640 480 (module_loaded no_windows 0) = (0, one_window)"
    using Window_init_fst [of "''W''" 0 640 480 "module_loaded no_windows 0"]
    by (simp add: one_window_def prod_eq_iff)
  have w: "Window_waitKey (\<lambda>s. (27, s)) 0 0 one_window = Some (27, one_window)"
    by (simp add: Window_waitKey_def waitKey_static_def Let_def)
       (subst waitKey_loop.simps, simp add: Let_def)
  show ?thesis
    by (simp add: show_window_def i w one_window_released_def)
qed

lemma second_show:
  "\<exists>s. show_window (\<lambda>s. (- 1, s)) ''W'' 1 800 600 one_window_released = Some s
       \<and> WINDOW_MAP s ''W'' = None
       \<and> hg_windows (cv2 s) ''W'' = None
       \<and> trace s = trace one_window
           @ [Cv2_destroyWindow ''W'', Cv2_namedWindow ''W'', Cv2_resizeWindow ''W'' 800 600,
              Axes_render 1 800 600, Cv2_imshow ''W'' (600, 800),
              Cv2_setMouseCallback ''W'' ''W'', Cv2_destroyWindow ''W'']"
proof -
  define s1 where "s1 = snd (Window_init ''W'' 1 800 600 one_window_released)"
  have i: "Window_init ''W'' 1 800 600 one_window_released = (1, s1)"
    using Window_init_fst [of "''W''" 1 800 600 one_window_released]
    by (simp add: s1_def prod_eq_iff one_window_released_fields)
  note r = Window_init_released [of one_window_released "''W''" 0
      "\<lparr>windowName = ''W'', win_rows = 480, win_cols = 640,
        mouseAdapter = MouseAdapter_init 0, mat = (480, 640)\<rparr>" 1 800 600,
      folded s1_def, simplified one_window_released_fields one_window_fields, simplified]
  have new: "heap s1 1 = Some \<lparr>windowName = ''W'', win_rows = 600, win_cols = 800,
        mouseAdapter = MouseAdapter_init 1, mat = (600, 800)\<rparr>"
    using r(4) by simp
  then have new': "heap s1 (Suc 0) = Some \<lparr>windowName = ''W'', win_rows = 600, win_cols = 800,
        mouseAdapter = MouseAdapter_init 1, mat = (600, 800)\<rparr>"
    by simp
  have w: "Window_waitKey (\<lambda>s. (- 1, s)) 1 0 s1 = Some (- 1, s1)"
    by (simp add: Window_waitKey_def waitKey_static_def Let_def)
       (subst waitKey_loop.simps,
        simp add: Let_def all_invalid_def new' Window_valid_iff r(2))
  have heap_dropped: "heap (s1\<lparr>caller_refs := caller_refs s1 - {1}\<rparr>) 1 =
      Some \<lparr>windowName = ''W'', win_rows = 600, win_cols = 800,
        mouseAdapter = MouseAdapter_init 1, mat = (600, 800)\<rparr>"
    using new by simp
  have d: "WINDOW_MAP (drop_reference 1 s1) ''W'' = None"
    "hg_windows (cv2 (drop_reference 1 s1)) ''W'' = None"
    "trace (drop_reference 1 s1) = trace s1"
    by (simp_all add: drop_reference_def Let_def new new' r(1) r(2) finalise_def
          Window_del_fields [OF heap_dropped, simplified])
  have "show_window (\<lambda>s. (- 1, s)) ''W'' 1 800 600 one_window_released
          = Some (drop_reference 1 s1)"
    unfolding show_window_def i by (simp only: prod.case w option.case)
  then show ?thesis
    using r(5) d by (simp add: one_window_fields)
qed

end
